theory Spec2Isabelle
  imports Main "HOL-Library.Word"
begin

unbundle bit_operations_syntax

section \<open>Bytes and C strings\<close>

text \<open>
  The portal backend \<^verbatim>\<open>src/nfd_portal.cpp\<close> works on \<^verbatim>\<open>char\<close> buffers.  A byte is a
  \<^typ>\<open>char\<close>.  A \<^verbatim>\<open>const char*\<close> argument that the code reads as a C string is modelled
  by the bytes in front of its terminator (a \<^typ>\<open>string\<close>): the empty list stands for
  a pointer at the terminating NUL, and a read behind the terminator is a fault of the
  model, also where the bytes that follow happen to belong to the same allocation.
  A raw buffer that carries several strings (the Windows filter list, the packed path
  list) is the list of all its bytes, NULs included.
\<close>

definition NUL :: char where
  "NUL = CHR 0x00"

text \<open>\<^verbatim>\<open>isalpha\<close>, \<^verbatim>\<open>tolower\<close> and \<^verbatim>\<open>toupper\<close> of \<^verbatim>\<open>cctype\<close> in the "C" locale (the code never
  calls \<^verbatim>\<open>setlocale\<close>).\<close>

definition isupper :: "char \<Rightarrow> bool" where
  "isupper c = (65 \<le> (of_char c :: nat) \<and> (of_char c :: nat) \<le> 90)"

definition islower :: "char \<Rightarrow> bool" where
  "islower c = (97 \<le> (of_char c :: nat) \<and> (of_char c :: nat) \<le> 122)"

definition isalpha :: "char \<Rightarrow> bool" where
  "isalpha c = (isupper c \<or> islower c)"

definition tolower :: "char \<Rightarrow> char" where
  "tolower c = (if isupper c then char_of ((of_char c :: nat) + 32) else c)"

definition toupper :: "char \<Rightarrow> char" where
  "toupper c = (if islower c then char_of ((of_char c :: nat) - 32) else c)"

datatype fault =
    ReadOutOfBounds     \<comment> \<open>a read outside the string or buffer the pointer belongs to\<close>
  | ScratchOverrun      \<comment> \<open>a write behind the end of an \<^verbatim>\<open>alloca\<close> scratch buffer\<close>
  | HeapOverrun         \<comment> \<open>a write behind the end of a \<^verbatim>\<open>malloc\<close> block\<close>
  | AllocFailed         \<comment> \<open>\<^verbatim>\<open>assert(newPtr)\<close> in \<^verbatim>\<open>NFDi_Realloc\<close>\<close>
  | Unreachable         \<comment> \<open>a call that breaks the callee's stated precondition\<close>
  | NoReturn            \<comment> \<open>the call does not return: a loop that never exits, or a wait
                            for an event the environment never delivers\<close>

section \<open>Filter encoder\<close>

text \<open>The portal's filter structure \<^verbatim>\<open>(sa(us))\<close>: a display name and a list of
  (kind, pattern) pairs; kind 0 is a glob.\<close>

type_synonym portal_filter = "string \<times> (nat \<times> string) list"

text \<open>The values the options dictionary \<^verbatim>\<open>a{sv}\<close> carries, and the dictionary as the list of
  its entries in the order they are appended.\<close>

datatype variant =
    VString string
  | VBool bool
  | VBytes "char list"
  | VFilter portal_filter
  | VFilters "portal_filter list"



subsection \<open>\<^verbatim>\<open>genCaseSensitivePattern\<close>\<close>

text \<open>One step per input byte of the range \<^verbatim>\<open>[begin, end)\<close>; the result is the list of the
  bytes written through \<^verbatim>\<open>out\<close>.\<close>

fun genCaseSensitivePattern :: "string \<Rightarrow> string" where
  "genCaseSensitivePattern [] = []"
| "genCaseSensitivePattern (c # cs) =
     (if isalpha c
      then CHR ''['' # tolower c # toupper c # CHR '']'' # genCaseSensitivePattern cs
      else c # genCaseSensitivePattern cs)"

subsection \<open>\<^verbatim>\<open>AppendWildcardFilter\<close>\<close>


subsection \<open>\<^verbatim>\<open>AppendSingleFilter\<close> for a Windows name and pattern\<close>

text \<open>
  The inner \<^verbatim>\<open>do ... while (*pattern_end != ';' && *pattern_end != '\0')\<close> runs its body
  once on the byte at \<^verbatim>\<open>pattern_begin\<close> whatever it is, and then on every following byte
  up to the next \<^verbatim>\<open>;\<close> or the terminator.  \<open>pattern_scan\<close> is the part of the loop after
  that first round, on the bytes that follow \<^verbatim>\<open>pattern_begin\<close>: it returns how many
  letters it counted and the bytes it stepped over.
\<close>

fun pattern_scan :: "string \<Rightarrow> nat \<times> string" where
  "pattern_scan [] = (0, [])"
| "pattern_scan (c # cs) =
     (if c = CHR '';'' then (0, [])
      else (let (k, g) = pattern_scan cs in ((if isalpha c then Suc k else k), c # g)))"

text \<open>
  The outer \<^verbatim>\<open>while (true)\<close> over the patterns.  \<^verbatim>\<open>letter_count\<close> is the counter of the
  loop, the scratch buffer has \<^verbatim>\<open>(pattern_end - pattern_begin) + 3 * letter_count + 1\<close>
  bytes, and the bytes written into it are the output of \<open>genCaseSensitivePattern\<close>
  and the terminator.  With \<^verbatim>\<open>pattern_begin\<close> at the terminator (an empty pattern, or one
  that ends with \<^verbatim>\<open>;\<close>) the first \<^verbatim>\<open>++pattern_end\<close> leaves the string.  The counters are
  natural numbers: \<^verbatim>\<open>int letter_count\<close> cannot wrap for a pattern of fewer than
  \<open>2^31 div 3\<close> bytes.
\<close>

function win_patterns :: "string \<Rightarrow> fault + (nat \<times> string) list" where
  "win_patterns [] = Inl ReadOutOfBounds"
| "win_patterns (c # cs) =
     (let (k, g) = pattern_scan cs;
          letter_count = (if isalpha c then Suc k else k);
          pat = c # g;
          capacity = length pat + 3 * letter_count + 1;
          written = genCaseSensitivePattern pat @ [NUL]
      in if capacity < length written then Inl ScratchOverrun
         else (case drop (length g) cs of
                 [] \<Rightarrow> Inr [(0, genCaseSensitivePattern pat)]
               | _ # rest \<Rightarrow>
                   (case win_patterns rest of
                      Inl e \<Rightarrow> Inl e
                    | Inr ps \<Rightarrow> Inr ((0, genCaseSensitivePattern pat) # ps))))"
  by pat_completeness auto
termination
  by (relation "measure length") (auto dest!: arg_cong [where f = length])

definition AppendSingleFilterWin :: "string \<Rightarrow> string \<Rightarrow> fault + portal_filter" where
  "AppendSingleFilterWin name pattern =
     (case win_patterns pattern of
        Inl e \<Rightarrow> Inl e
      | Inr ps \<Rightarrow> Inr (name, ps))"

subsection \<open>\<^verbatim>\<open>AppendFileQueryDictEntryFilters\<close>: the Windows filter list\<close>

text \<open>
  \<^verbatim>\<open>winFilter\<close> points into a raw buffer; a pointer into it is the list of the bytes from
  the pointer to the end of the buffer.  \<open>c_string p\<close> is the C string at \<open>p\<close> and
  \<open>c_next p\<close> is \<^verbatim>\<open>p + strlen(p) + 1\<close>; both need a NUL in \<open>p\<close>.
\<close>

definition c_string :: "char list \<Rightarrow> string" where
  "c_string p = takeWhile (\<lambda>c. c \<noteq> NUL) p"





subsection \<open>\<^verbatim>\<open>AppendSingleFilter\<close> and \<^verbatim>\<open>AppendSingleFilterCheckExtn\<close> for a native filter item\<close>

record nfdnfilteritem_t =
  name :: string
  spec :: string







subsection \<open>\<^verbatim>\<open>AppendSaveFileQueryDictEntryFilters\<close>\<close>





section \<open>URI codec\<close>

definition IsHex :: "char \<Rightarrow> bool" where
  "IsHex ch =
     ((48 \<le> (of_char ch :: nat) \<and> (of_char ch :: nat) \<le> 57) \<or>
      (65 \<le> (of_char ch :: nat) \<and> (of_char ch :: nat) \<le> 70) \<or>
      (97 \<le> (of_char ch :: nat) \<and> (of_char ch :: nat) \<le> 102))"

text \<open>\<^verbatim>\<open>ParseHexUnchecked\<close> has the precondition \<^verbatim>\<open>IsHex(ch)\<close>; outside it the C function runs
  into \<^verbatim>\<open>__builtin_unreachable()\<close>.\<close>

definition ParseHexUnchecked :: "char \<Rightarrow> fault + nat" where
  "ParseHexUnchecked ch =
     (if 48 \<le> (of_char ch :: nat) \<and> (of_char ch :: nat) \<le> 57 then Inr (of_char ch - 48)
      else if 65 \<le> (of_char ch :: nat) \<and> (of_char ch :: nat) \<le> 70 then Inr (of_char ch - (65 - 10))
      else if 97 \<le> (of_char ch :: nat) \<and> (of_char ch :: nat) \<le> 102 then Inr (of_char ch - (97 - 10))
      else Inl Unreachable)"

text \<open>
  The loop of \<^verbatim>\<open>TryUriDecodeLen\<close> with its counter \<^verbatim>\<open>len\<close>.  \<open>None\<close> is \<^verbatim>\<open>return false\<close>.
  On \<open>Some len\<close> the C function also sets \<^verbatim>\<open>fileUriEnd\<close> to the terminator, which is the end
  of the list.  The test \<^verbatim>\<open>*(fileUri + 1) == '\0' || *(fileUri + 2) == '\0'\<close> is the test for a
  tail of fewer than two bytes.
\<close>

fun uri_len_loop :: "nat \<Rightarrow> string \<Rightarrow> nat option" where
  "uri_len_loop len [] = Some len"
| "uri_len_loop len (c # cs) =
     (if c \<noteq> CHR ''%'' then uri_len_loop (len + 1) cs
      else (case cs of
              [] \<Rightarrow> None
            | [h1] \<Rightarrow> None
            | h1 # h2 # rest \<Rightarrow>
                if \<not> IsHex h1 \<or> \<not> IsHex h2 then None
                else uri_len_loop (len + 1) rest))"

definition TryUriDecodeLen :: "string \<Rightarrow> nat option" where
  "TryUriDecodeLen fileUri = uri_len_loop 0 fileUri"

text \<open>\<^verbatim>\<open>UriDecodeUnchecked\<close> from \<^verbatim>\<open>fileUri\<close> to the terminator: the bytes written through
  \<^verbatim>\<open>outPath\<close>.  The byte \<^verbatim>\<open>(high_nibble << 4) | low_nibble\<close> has the value
  \<open>16 * high + low\<close>.\<close>

fun UriDecodeUnchecked :: "string \<Rightarrow> fault + char list" where
  "UriDecodeUnchecked [] = Inr []"
| "UriDecodeUnchecked (c # cs) =
     (if c \<noteq> CHR ''%'' then
        (case UriDecodeUnchecked cs of Inl e \<Rightarrow> Inl e | Inr out \<Rightarrow> Inr (c # out))
      else (case cs of
              [] \<Rightarrow> Inl ReadOutOfBounds
            | [h1] \<Rightarrow> Inl ReadOutOfBounds
            | h1 # h2 # rest \<Rightarrow>
                (case ParseHexUnchecked h1 of
                   Inl e \<Rightarrow> Inl e
                 | Inr high_nibble \<Rightarrow>
                     (case ParseHexUnchecked h2 of
                        Inl e \<Rightarrow> Inl e
                      | Inr low_nibble \<Rightarrow>
                          (case UriDecodeUnchecked rest of
                             Inl e \<Rightarrow> Inl e
                           | Inr out \<Rightarrow> Inr (char_of (16 * high_nibble + low_nibble) # out))))))"

definition FILE_URI_PREFIX :: string where
  "FILE_URI_PREFIX = ''file://''"

text \<open>The loop \<^verbatim>\<open>for (; prefix_begin != prefix_end; ++prefix_begin, ++fileUri)\<close>: \<open>Some\<close> of
  the URI behind the prefix, or \<open>None\<close> at the first byte that differs (the terminator of
  a short URI differs from every prefix byte).\<close>

fun strip_prefix_loop :: "string \<Rightarrow> string \<Rightarrow> string option" where
  "strip_prefix_loop [] fileUri = Some fileUri"
| "strip_prefix_loop (p # ps) [] = None"
| "strip_prefix_loop (p # ps) (c # cs) = (if p \<noteq> c then None else strip_prefix_loop ps cs)"

subsection \<open>The error slot and the result codes\<close>

text \<open>\<^verbatim>\<open>nfdresult_t\<close> of \<^verbatim>\<open>nfd.h\<close>.  The process-global \<^verbatim>\<open>err_ptr\<close> is passed through every
  function that can set it: \<open>None\<close> is the null pointer, \<open>Some msg\<close> a pointer to the
  message.\<close>

datatype nfdresult_t = NFD_ERROR | NFD_OKAY | NFD_CANCEL

type_synonym err_ptr = "string option"

definition NFDi_SetError :: "string \<Rightarrow> err_ptr \<Rightarrow> err_ptr" where
  "NFDi_SetError msg err = Some msg"

definition NFD_GetError :: "err_ptr \<Rightarrow> string option" where
  "NFD_GetError err = err"

text \<open>\<^verbatim>\<open>AllocAndCopyFilePath\<close>: the result code, the new block behind \<^verbatim>\<open>outPath\<close> with its
  terminator and \<^verbatim>\<open>*outSize\<close> (\<open>None\<close> when \<^verbatim>\<open>outPath\<close> is not modified), and the error
  slot.\<close>

definition AllocAndCopyFilePath ::
  "string \<Rightarrow> err_ptr \<Rightarrow> fault + ((nfdresult_t \<times> (char list \<times> nat) option) \<times> err_ptr)" where
  "AllocAndCopyFilePath fileUri err =
     (case strip_prefix_loop FILE_URI_PREFIX fileUri of
        None \<Rightarrow>
          Inr ((NFD_ERROR, None),
               NFDi_SetError ''D-Bus freedesktop portal returned a URI that is not a file URI.'' err)
      | Some rest \<Rightarrow>
          (case TryUriDecodeLen rest of
             None \<Rightarrow>
               Inr ((NFD_ERROR, None),
                    NFDi_SetError ''D-Bus freedesktop portal returned a malformed URI.'' err)
           | Some decoded_len \<Rightarrow>
               (case UriDecodeUnchecked rest of
                  Inl e \<Rightarrow> Inl e
                | Inr out \<Rightarrow>
                    if decoded_len + 1 < length (out @ [NUL]) then Inl HeapOverrun
                    else Inr ((NFD_OKAY, Some (out @ [NUL], decoded_len + 1)), err))))"

text \<open>\<^verbatim>\<open>ConvertToUriPath\<close>: the two \<^verbatim>\<open>strcpy\<close> calls into a block of
  \<^verbatim>\<open>sizeof(URI_FILE_PREFIX) + strlen(path)\<close> bytes.\<close>

definition ConvertToUriPath :: "string \<Rightarrow> string" where
  "ConvertToUriPath path = ''file://'' @ path"

section \<open>Handle generator\<close>

text \<open>
  One outcome of \<^verbatim>\<open>getrandom(buf, amount, 0)\<close>: \<^verbatim>\<open>-1\<close> with \<^verbatim>\<open>errno == EINTR\<close>, \<^verbatim>\<open>-1\<close> with
  another \<^verbatim>\<open>errno\<close>, or the bytes the kernel wrote (never more than \<^verbatim>\<open>amount\<close>: a longer
  list is cut).  The environment is the list of the outcomes of the successive calls;
  the loop that wants one more than the list holds does not return.
\<close>

datatype getrandom_result = Interrupted | Failed | Delivered "8 word list"

definition encode_random_byte :: "8 word \<Rightarrow> string" where
  "encode_random_byte b =
     [char_of (65 + unat (b AND 15)), char_of (65 + unat (drop_bit 4 b))]"

fun random_chars_loop :: "nat \<Rightarrow> getrandom_result list \<Rightarrow> fault + string" where
  "random_chars_loop amount [] = (if amount > 0 then Inl NoReturn else Inr [])"
| "random_chars_loop amount (r # rs) =
     (if amount > 0 then
        (case r of
           Interrupted \<Rightarrow> random_chars_loop amount rs
         | Failed \<Rightarrow> Inr []
         | Delivered bs \<Rightarrow>
             (case random_chars_loop (amount - length (take amount bs)) rs of
                Inl e \<Rightarrow> Inl e
              | Inr out \<Rightarrow> Inr (concat (map encode_random_byte (take amount bs)) @ out)))
      else Inr [])"

definition Generate64RandomChars :: "getrandom_result list \<Rightarrow> fault + string" where
  "Generate64RandomChars rs = random_chars_loop 32 rs"

definition STR_RESPONSE_HANDLE_PREFIX :: string where
  "STR_RESPONSE_HANDLE_PREFIX = ''/org/freedesktop/portal/desktop/request/''"

text \<open>\<^verbatim>\<open>MakeUniqueObjectPath\<close> reads the global \<^verbatim>\<open>dbus_unique_name\<close>; it returns the path and the
  part \<^verbatim>\<open>*handle_token_ptr\<close> points to.\<close>

definition MakeUniqueObjectPath ::
  "string \<Rightarrow> getrandom_result list \<Rightarrow> fault + (string \<times> string)" where
  "MakeUniqueObjectPath dbus_unique_name rs =
     (let sender = (case dbus_unique_name of
                      [] \<Rightarrow> []
                    | c # cs \<Rightarrow> if c = CHR '':'' then cs else c # cs)
      in case Generate64RandomChars rs of
           Inl e \<Rightarrow> Inl e
         | Inr token \<Rightarrow>
             Inr (STR_RESPONSE_HANDLE_PREFIX
                    @ map (\<lambda>ch. if ch \<noteq> CHR ''.'' then ch else CHR ''_'') sender
                    @ ''/'' @ token,
                  token))"

section \<open>Response parser\<close>

text \<open>
  A D-Bus value as far as the parser looks at it, and a message: whether it is a signal,
  its interface and member, and its arguments.  A \<^verbatim>\<open>DBusMessageIter\<close> is the list of the
  values from the iterator's position to the end of its container: the empty list has
  the argument type \<^verbatim>\<open>DBUS_TYPE_INVALID\<close>, and \<^verbatim>\<open>dbus_message_iter_next\<close> is false when
  nothing follows the current value.
\<close>

datatype dbus_value =
    DUInt32 "32 word"
  | DString string
  | DObjectPath string
  | DArray "dbus_value list"
  | DDictEntry "dbus_value list"
  | DVariant dbus_value
  | DStruct "dbus_value list"
  | DOther

record dbus_message =
  msg_is_signal :: bool
  msg_interface :: string
  msg_member :: string
  msg_args :: "dbus_value list"

definition dbus_message_is_signal :: "dbus_message \<Rightarrow> string \<Rightarrow> string \<Rightarrow> bool" where
  "dbus_message_is_signal msg iface member =
     (msg_is_signal msg \<and> msg_interface msg = iface \<and> msg_member msg = member)"

text \<open>\<^verbatim>\<open>ReadResponseResults\<close>: the result code, \<^verbatim>\<open>resultsIter\<close> when it is set, and the error
  slot.\<close>

definition ReadResponseResults ::
  "dbus_message \<Rightarrow> err_ptr \<Rightarrow> (nfdresult_t \<times> dbus_value list option) \<times> err_ptr" where
  "ReadResponseResults msg err =
     (case msg_args msg of
        [] \<Rightarrow>
          ((NFD_ERROR, None),
           NFDi_SetError ''D-Bus response signal is missing one or more arguments.'' err)
      | a # rest \<Rightarrow>
          (case a of
             DUInt32 resp_code \<Rightarrow>
               if resp_code \<noteq> 0 then
                 (if resp_code = 1 then ((NFD_CANCEL, None), err)
                  else ((NFD_ERROR, None),
                        NFDi_SetError ''D-Bus file dialog interaction was ended abruptly.'' err))
               else if rest = [] then
                 ((NFD_ERROR, None),
                  NFDi_SetError ''D-Bus response signal is missing one or more arguments.'' err)
               else ((NFD_OKAY, Some rest), err)
           | _ \<Rightarrow>
               ((NFD_ERROR, None),
                NFDi_SetError ''D-Bus response signal argument is not a uint32.'' err)))"

text \<open>
  \<^verbatim>\<open>ReadDict\<close> with one key and its callback, as every caller in the file has it.  The
  callback gets the value inside the variant, the variables its lambda captured by
  reference (\<open>acc\<close>) and the error slot.  \<open>read_dict_entries\<close> is the \<^verbatim>\<open>while\<close> over the
  entries; a key that is not the candidate falls through to the \<^verbatim>\<open>ReadDictImpl\<close> that
  returns \<^verbatim>\<open>NFD_OKAY\<close>.
\<close>

type_synonym 'a dict_callback =
  "dbus_value \<Rightarrow> 'a \<Rightarrow> err_ptr \<Rightarrow> (nfdresult_t \<times> 'a) \<times> err_ptr"

fun read_dict_entries ::
  "string \<Rightarrow> 'a dict_callback \<Rightarrow> dbus_value list \<Rightarrow> 'a \<Rightarrow> err_ptr
     \<Rightarrow> (nfdresult_t \<times> 'a) \<times> err_ptr" where
  "read_dict_entries candidate_key cb [] acc err = ((NFD_OKAY, acc), err)"
| "read_dict_entries candidate_key cb (e # es) acc err =
     (case e of
        DDictEntry de \<Rightarrow>
          (case de of
             DString key # behind \<Rightarrow>
               (case behind of
                  [] \<Rightarrow>
                    ((NFD_ERROR, acc),
                     NFDi_SetError
                       ''D-Bus response signal dict entry is missing one or more arguments.'' err)
                | DVariant v # _ \<Rightarrow>
                    if key = candidate_key then
                      (case cb v acc err of
                         ((NFD_ERROR, acc'), err') \<Rightarrow> ((NFD_ERROR, acc'), err')
                       | ((_, acc'), err') \<Rightarrow> read_dict_entries candidate_key cb es acc' err')
                    else read_dict_entries candidate_key cb es acc err
                | _ \<Rightarrow>
                    ((NFD_ERROR, acc),
                     NFDi_SetError
                       ''D-Bus response signal dict entry value is not a variant.'' err))
           | _ \<Rightarrow>
               ((NFD_ERROR, acc),
                NFDi_SetError
                  ''D-Bus response signal dict entry does not start with a string.'' err))
      | _ \<Rightarrow> ((NFD_OKAY, acc), err))"

definition ReadDict ::
  "dbus_value list \<Rightarrow> string \<Rightarrow> 'a dict_callback \<Rightarrow> 'a \<Rightarrow> err_ptr
     \<Rightarrow> (nfdresult_t \<times> 'a) \<times> err_ptr" where
  "ReadDict iter candidate_key cb acc err =
     (case iter of
        DArray entries # _ \<Rightarrow> read_dict_entries candidate_key cb entries acc err
      | _ \<Rightarrow> ((NFD_ERROR, acc),
               NFDi_SetError ''D-Bus response signal argument is not an array.'' err))"

text \<open>The lambda of \<^verbatim>\<open>ReadResponseUris\<close>: \<open>acc\<close> is \<^verbatim>\<open>uriIter\<close> once \<^verbatim>\<open>has_uris\<close> is true.\<close>

definition uris_callback :: "dbus_value list option dict_callback" where
  "uris_callback v acc err =
     (case v of
        DArray xs \<Rightarrow> ((NFD_OKAY, Some xs), err)
      | _ \<Rightarrow> ((NFD_ERROR, acc),
               NFDi_SetError ''D-Bus response signal URI iter is not an array.'' err))"

definition ReadResponseUris ::
  "dbus_message \<Rightarrow> err_ptr \<Rightarrow> (nfdresult_t \<times> dbus_value list option) \<times> err_ptr" where
  "ReadResponseUris msg err =
     (case ReadResponseResults msg err of
        ((NFD_OKAY, Some iter), err1) \<Rightarrow>
          (case ReadDict iter ''uris'' uris_callback None err1 of
             ((NFD_ERROR, _), err2) \<Rightarrow> ((NFD_ERROR, None), err2)
           | ((_, None), err2) \<Rightarrow>
               ((NFD_ERROR, None),
                NFDi_SetError ''D-Bus response signal has no URI field.'' err2)
           | ((_, Some uriIter), err2) \<Rightarrow> ((NFD_OKAY, Some uriIter), err2))
      | ((res, _), err1) \<Rightarrow> ((res, None), err1))"

text \<open>
  \<^verbatim>\<open>ReadResponseUrisUnchecked\<close> and \<^verbatim>\<open>ReadResponseUrisUncheckedGetArraySize\<close> skip every
  check of the message; they are for a message that \<^verbatim>\<open>ReadResponseUris\<close> accepted.  Their
  lambdas recurse into, or count, whatever the variant holds: \<open>acc\<close> is \<open>None\<close> while
  \<^verbatim>\<open>uriIter\<close> is uninitialised, and a recursion into a value that is no array is outside the
  contract of \<^verbatim>\<open>dbus_message_iter_recurse\<close>.
\<close>

definition unchecked_uris_callback :: "(fault + dbus_value list) option dict_callback" where
  "unchecked_uris_callback v acc err =
     (case v of
        DArray xs \<Rightarrow> ((NFD_OKAY, Some (Inr xs)), err)
      | _ \<Rightarrow> ((NFD_OKAY, Some (Inl Unreachable)), err))"

definition ReadResponseUrisUnchecked ::
  "dbus_message \<Rightarrow> err_ptr \<Rightarrow> (fault + dbus_value list) \<times> err_ptr" where
  "ReadResponseUrisUnchecked msg err =
     (case ReadDict (tl (msg_args msg)) ''uris'' unchecked_uris_callback None err of
        ((_, Some it), err') \<Rightarrow> (it, err')
      | ((_, None), err') \<Rightarrow> (Inl Unreachable, err'))"

definition array_size_callback :: "nat dict_callback" where
  "array_size_callback v acc err =
     (case v of
        DArray xs \<Rightarrow> ((NFD_OKAY, length xs), err)
      | _ \<Rightarrow> ((NFD_OKAY, 0), err))"

definition ReadResponseUrisUncheckedGetArraySize :: "dbus_message \<Rightarrow> err_ptr \<Rightarrow> nat \<times> err_ptr" where
  "ReadResponseUrisUncheckedGetArraySize msg err =
     (case ReadDict (tl (msg_args msg)) ''uris'' array_size_callback 0 err of
        ((_, sz), err') \<Rightarrow> (sz, err'))"

definition NFD_PathSet_GetCount :: "dbus_message \<Rightarrow> err_ptr \<Rightarrow> nat \<times> err_ptr" where
  "NFD_PathSet_GetCount pathSet err = ReadResponseUrisUncheckedGetArraySize pathSet err"

definition ReadResponseUrisSingle ::
  "dbus_message \<Rightarrow> err_ptr \<Rightarrow> (nfdresult_t \<times> string option) \<times> err_ptr" where
  "ReadResponseUrisSingle msg err =
     (case ReadResponseUris msg err of
        ((NFD_OKAY, Some uri_iter), err1) \<Rightarrow>
          (case uri_iter of
             DString file # _ \<Rightarrow> ((NFD_OKAY, Some file), err1)
           | _ \<Rightarrow>
               ((NFD_ERROR, None),
                NFDi_SetError ''D-Bus response signal URI sub iter is not a string.'' err1))
      | ((res, _), err1) \<Rightarrow> ((res, None), err1))"

section \<open>Packing several paths\<close>

subsection \<open>\<^verbatim>\<open>dirname\<close> and \<^verbatim>\<open>basename\<close>\<close>

text \<open>
  \<^verbatim>\<open>dirname\<close> and \<^verbatim>\<open>basename\<close> of \<^verbatim>\<open>libgen.h\<close> belong to the C library, not to the
  repository.  POSIX lets both work in place and return a pointer into their argument or
  to a static string, and \<^verbatim>\<open>copyFileInfo\<close> depends on which, so the two definitions follow
  the GNU C library.  The argument is a buffer with its terminator; the result is the
  index the returned pointer has in the buffer (\<open>None\<close> for the static string \<^verbatim>\<open>"."\<close>) and
  the buffer as the call leaves it.
\<close>

text \<open>\<^verbatim>\<open>strrchr\<close> and \<^verbatim>\<open>memrchr\<close>: the index of the last occurrence.\<close>

fun find_last :: "char \<Rightarrow> char list \<Rightarrow> nat option" where
  "find_last c [] = None"
| "find_last c (x # xs) =
     (case find_last c xs of
        Some i \<Rightarrow> Some (Suc i)
      | None \<Rightarrow> if x = c then Some 0 else None)"

text \<open>\<^verbatim>\<open>for (runp = last_slash; runp != path; --runp) if (runp[-1] != '/') break;\<close>\<close>

fun slashes_back :: "char list \<Rightarrow> nat \<Rightarrow> nat" where
  "slashes_back s 0 = 0"
| "slashes_back s (Suc i) = (if s ! i \<noteq> CHR ''/'' then Suc i else slashes_back s i)"

text \<open>\<^verbatim>\<open>while (p > filename && p[-1] != '/') --p;\<close>\<close>

fun component_back :: "char list \<Rightarrow> nat \<Rightarrow> nat" where
  "component_back s 0 = 0"
| "component_back s (Suc i) = (if s ! i = CHR ''/'' then Suc i else component_back s i)"

text \<open>Modelled from the spec: \<^verbatim>\<open>dirname\<close> is the C library's, absent from the repository; the
  spec fixes it as the standard POSIX one.  This is \<^verbatim>\<open>dirname\<close> of the GNU C library: it
  writes a NUL over the slash that ends the directory part and returns its argument.\<close>

definition dirname :: "char list \<Rightarrow> nat option \<times> char list" where
  "dirname buf =
     (let path = c_string buf;
          last_slash =
            (case find_last (CHR ''/'') path of
               None \<Rightarrow> None
             | Some l \<Rightarrow>
                 if l \<noteq> 0 \<and> Suc l = length path then
                   (let runp = slashes_back path l
                    in if runp \<noteq> 0 then find_last (CHR ''/'') (take runp path) else Some l)
                 else Some l)
      in case last_slash of
           None \<Rightarrow> (None, buf)
         | Some l \<Rightarrow>
             (let runp = slashes_back path l;
                  cut = (if runp = 0 then (if l = 1 then 2 else 1) else runp)
              in (Some 0, buf[cut := NUL])))"

text \<open>Modelled from the spec: \<^verbatim>\<open>basename\<close> is the C library's, absent from the repository; the
  spec fixes it as the standard POSIX one.  This is \<^verbatim>\<open>__xpg_basename\<close> of the GNU C library,
  which \<^verbatim>\<open>libgen.h\<close> puts in place of \<^verbatim>\<open>basename\<close>: it returns a pointer to the last component
  and writes a NUL over a slash behind it.\<close>

definition basename :: "char list \<Rightarrow> nat option \<times> char list" where
  "basename buf =
     (let filename = c_string buf
      in if filename = [] then (None, buf)
         else
           (case find_last (CHR ''/'') filename of
              None \<Rightarrow> (Some 0, buf)
            | Some l \<Rightarrow>
                if Suc l = length filename then
                  (let p = slashes_back filename l
                   in if p > 0 then (Some (component_back filename (p - 1)), buf[p := NUL])
                      else (Some l, buf))
                else (Some (Suc l), buf)))"

subsection \<open>\<^verbatim>\<open>expandOnDemand\<close>\<close>

text \<open>
  The output block: the bytes written so far (\<^verbatim>\<open>[base, ptr)\<close>, so \<^verbatim>\<open>offset\<close> is their
  number) and \<^verbatim>\<open>size\<close>, the bytes allocated.  The loop doubles the \<^verbatim>\<open>int size\<close> while
  \<^verbatim>\<open>size - offset < targetSize\<close>, a comparison of unsigned numbers: with \<^verbatim>\<open>offset\<close> above
  \<^verbatim>\<open>size\<close> the left side is huge and the loop is left.  A \<^verbatim>\<open>size\<close> of 0 stays 0.  Doubling
  \<open>2^30\<close> or more leaves the range of \<^verbatim>\<open>int\<close>: the result is negative, the loop is left,
  and \<^verbatim>\<open>realloc\<close> is asked for more than the address space has.
\<close>

function expand_loop :: "nat \<Rightarrow> nat \<Rightarrow> nat \<Rightarrow> fault + nat" where
  "expand_loop sz offset targetSize =
     (if offset \<le> sz \<and> sz - offset < targetSize then
        (if sz = 0 then Inl NoReturn
         else if 2 ^ 31 \<le> 2 * sz then Inl AllocFailed
         else expand_loop (2 * sz) offset targetSize)
      else Inr sz)"
  by pat_completeness auto
termination
  by (relation "measure (\<lambda>(sz, offset, targetSize). 2 ^ 31 - sz)") auto

type_synonym out_block = "char list \<times> nat"

definition expandOnDemand :: "out_block \<Rightarrow> nat \<Rightarrow> fault + out_block" where
  "expandOnDemand blk targetSize =
     (case expand_loop (snd blk) (length (fst blk)) targetSize of
        Inl e \<Rightarrow> Inl e
      | Inr sz \<Rightarrow> Inr (fst blk, sz))"

text \<open>A write of \<open>bs\<close> at \<^verbatim>\<open>curOutPath\<close>, which moves behind them.\<close>

definition write_out :: "out_block \<Rightarrow> char list \<Rightarrow> fault + out_block" where
  "write_out blk bs =
     (if snd blk < length (fst blk) + length bs then Inl HeapOverrun
      else Inr (fst blk @ bs, snd blk))"

subsection \<open>\<^verbatim>\<open>copyFileInfo\<close>\<close>

datatype policy = Basename | Dirname | FullPath

text \<open>
  For \<open>Basename\<close> and \<open>Dirname\<close> the decoded path goes into a scratch buffer with its
  terminator, \<^verbatim>\<open>segFunc\<close> runs on it, the block is grown for \<^verbatim>\<open>strlen(segment) + 1\<close> bytes,
  and \<^verbatim>\<open>copy(segment, bufEnd + 1, curOutPath)\<close> copies from the returned pointer to the
  end of the scratch buffer.  From a pointer that is not in the buffer the copy never
  meets \<^verbatim>\<open>bufEnd + 1\<close>.
\<close>

definition copyFileInfo ::
  "policy \<Rightarrow> string \<Rightarrow> out_block \<Rightarrow> err_ptr \<Rightarrow> fault + ((nfdresult_t \<times> out_block) \<times> err_ptr)" where
  "copyFileInfo pol fileUri blk err =
     (case strip_prefix_loop FILE_URI_PREFIX fileUri of
        None \<Rightarrow>
          Inr ((NFD_ERROR, blk),
               NFDi_SetError ''D-Bus freedesktop portal returned a URI that is not a file URI.'' err)
      | Some rest \<Rightarrow>
          (case TryUriDecodeLen rest of
             None \<Rightarrow>
               Inr ((NFD_ERROR, blk),
                    NFDi_SetError ''D-Bus freedesktop portal returned a malformed URI.'' err)
           | Some decoded_len \<Rightarrow>
               (case UriDecodeUnchecked rest of
                  Inl e \<Rightarrow> Inl e
                | Inr out \<Rightarrow>
                    (case pol of
                       FullPath \<Rightarrow>
                         (case expandOnDemand blk (decoded_len + 1) of
                            Inl e \<Rightarrow> Inl e
                          | Inr blk1 \<Rightarrow>
                              (case write_out blk1 (out @ [NUL]) of
                                 Inl e \<Rightarrow> Inl e
                               | Inr blk2 \<Rightarrow> Inr ((NFD_OKAY, blk2), err)))
                     | _ \<Rightarrow>
                         if decoded_len + 1 < length (out @ [NUL]) then Inl ScratchOverrun
                         else
                           (case (if pol = Basename then basename else dirname) (out @ [NUL]) of
                              (None, buf) \<Rightarrow> Inl ReadOutOfBounds
                            | (Some segment, buf) \<Rightarrow>
                                (case expandOnDemand blk (length (c_string (drop segment buf)) + 1) of
                                   Inl e \<Rightarrow> Inl e
                                 | Inr blk1 \<Rightarrow>
                                     (case write_out blk1 (drop segment buf) of
                                        Inl e \<Rightarrow> Inl e
                                      | Inr blk2 \<Rightarrow> Inr ((NFD_OKAY, blk2), err))))))))"

text \<open>\<^verbatim>\<open>NFD_PathSet_GetPathWin\<close>: the walk to \<^verbatim>\<open>index\<close> and the test of the element.\<close>

fun iter_advance :: "dbus_value list \<Rightarrow> nat \<Rightarrow> dbus_value list option" where
  "iter_advance it 0 = Some it"
| "iter_advance it (Suc index) =
     (case it of
        _ # nxt # behind \<Rightarrow> iter_advance (nxt # behind) index
      | _ \<Rightarrow> None)"

definition NFD_PathSet_GetPathWin ::
  "policy \<Rightarrow> dbus_message \<Rightarrow> nat \<Rightarrow> out_block \<Rightarrow> err_ptr
     \<Rightarrow> fault + ((nfdresult_t \<times> out_block) \<times> err_ptr)" where
  "NFD_PathSet_GetPathWin pol pathSet index blk err =
     (case ReadResponseUrisUnchecked pathSet err of
        (Inl e, _) \<Rightarrow> Inl e
      | (Inr uri_iter, err1) \<Rightarrow>
          (case iter_advance uri_iter index of
             None \<Rightarrow> Inr ((NFD_ERROR, blk), NFDi_SetError ''Index out of bounds.'' err1)
           | Some it \<Rightarrow>
               (case it of
                  DString uri # _ \<Rightarrow> copyFileInfo pol uri blk err1
                | _ \<Rightarrow>
                    Inr ((NFD_ERROR, blk),
                         NFDi_SetError ''D-Bus response signal URI sub iter is not a string.''
                           err1))))"

section \<open>Dialog driver\<close>

text \<open>
  What the session bus does during one call: the unique name of the connection, the
  outcomes of \<^verbatim>\<open>getrandom\<close>, the answer of \<^verbatim>\<open>dbus_bus_add_match\<close> to a match rule (\<open>None\<close> for
  success, or the message of the error), the answer of
  \<^verbatim>\<open>dbus_connection_send_with_reply_and_block\<close> (the message of the error, or the arguments
  of the reply), the messages \<^verbatim>\<open>dbus_connection_pop_message\<close> hands out in their order,
  and whether \<^verbatim>\<open>dbus_connection_read_write\<close> returns false once they are used up (the
  connection is closed) or blocks for ever.
\<close>

record bus_env =
  env_unique_name :: string
  env_getrandom :: "getrandom_result list"
  env_add_match :: "string \<Rightarrow> string option"
  env_reply :: "string + dbus_value list"
  env_incoming :: "dbus_message list"
  env_closes :: bool

definition MakeResponseSubscriptionPath :: "string \<Rightarrow> string \<Rightarrow> string" where
  "MakeResponseSubscriptionPath handle_path unique_name =
     ''type='' @ [CHR 0x27] @ ''signal'' @ [CHR 0x27]
       @ '',sender='' @ [CHR 0x27] @ ''org.freedesktop.portal.Desktop'' @ [CHR 0x27]
       @ '',path='' @ [CHR 0x27] @ handle_path @ [CHR 0x27]
       @ '',interface='' @ [CHR 0x27] @ ''org.freedesktop.portal.Request'' @ [CHR 0x27]
       @ '',member='' @ [CHR 0x27] @ ''Response'' @ [CHR 0x27]
       @ '',destination='' @ [CHR 0x27] @ unique_name @ [CHR 0x27]"

text \<open>\<^verbatim>\<open>DBusSignalSubscriptionHandler::Subscribe\<close>: on an error of the bus the message goes
  into the error slot.\<close>

definition Subscribe :: "bus_env \<Rightarrow> string \<Rightarrow> err_ptr \<Rightarrow> nfdresult_t \<times> err_ptr" where
  "Subscribe env handle_path err =
     (case env_add_match env (MakeResponseSubscriptionPath handle_path (env_unique_name env)) of
        Some message \<Rightarrow> (NFD_ERROR, NFDi_SetError message err)
      | None \<Rightarrow> (NFD_OKAY, err))"

text \<open>The loop that waits for the response: \<^verbatim>\<open>do { while (true) { pop ... } } while
  (dbus_connection_read_write(dbus_conn, -1))\<close>.\<close>

fun wait_for_response ::
  "bool \<Rightarrow> dbus_message list \<Rightarrow> err_ptr
     \<Rightarrow> fault + ((nfdresult_t \<times> dbus_message option) \<times> err_ptr)" where
  "wait_for_response closes [] err =
     (if closes then
        Inr ((NFD_ERROR, None),
             NFDi_SetError ''D-Bus freedesktop portal did not give us a reply.'' err)
      else Inl NoReturn)"
| "wait_for_response closes (msg # msgs) err =
     (if dbus_message_is_signal msg ''org.freedesktop.portal.Request'' ''Response''
      then Inr ((NFD_OKAY, Some msg), err)
      else wait_for_response closes msgs err)"

text \<open>
  \<^verbatim>\<open>NFD_DBus_OpenFile\<close>, \<^verbatim>\<open>NFD_DBus_OpenFileWin\<close> (with \<^verbatim>\<open>NFD_DBus_ShowOpenFileDialog\<close>),
  \<^verbatim>\<open>NFD_DBus_SaveFile\<close> and \<^verbatim>\<open>NFD_DBus_SaveFileWin\<close> (with \<^verbatim>\<open>NFD_DBus_ShowSaveFileDialog\<close>) have
  the same body but for the method and the arguments of the query, which the functions
  of the filter encoder append without a look at the error slot.  The result of the
  second \<^verbatim>\<open>signal_sub.Subscribe(path)\<close> is dropped, as in the source.
\<close>

definition NFD_DBus_request ::
  "bus_env \<Rightarrow> err_ptr \<Rightarrow> fault + ((nfdresult_t \<times> dbus_message option) \<times> err_ptr)" where
  "NFD_DBus_request env err =
     (case MakeUniqueObjectPath (env_unique_name env) (env_getrandom env) of
        Inl e \<Rightarrow> Inl e
      | Inr (handle_obj_path, handle_token_ptr) \<Rightarrow>
          (case Subscribe env handle_obj_path err of
             (NFD_OKAY, err1) \<Rightarrow>
               (case env_reply env of
                  Inl message \<Rightarrow> Inr ((NFD_ERROR, None), NFDi_SetError message err1)
                | Inr [] \<Rightarrow>
                    Inr ((NFD_ERROR, None),
                         NFDi_SetError ''D-Bus reply is missing an argument.'' err1)
                | Inr (DObjectPath path # _) \<Rightarrow>
                    wait_for_response (env_closes env) (env_incoming env)
                      (if path \<noteq> handle_obj_path then snd (Subscribe env path err1) else err1)
                | Inr _ \<Rightarrow>
                    Inr ((NFD_ERROR, None),
                         NFDi_SetError ''D-Bus reply is not an object path.'' err1))
           | (res, err1) \<Rightarrow> Inr ((res, None), err1)))"

text \<open>
  The calls that return one path, without an \<^verbatim>\<open>outAsyncOpHandle\<close>: \<^verbatim>\<open>NFD_OpenDialogN\<close>,
  \<^verbatim>\<open>NFD_OpenDialogWin\<close>, \<^verbatim>\<open>NFD_SaveDialogN\<close>, \<^verbatim>\<open>NFD_SaveDialogWin\<close> (both without
  \<^verbatim>\<open>NFD_APPEND_EXTENSION\<close>) and \<^verbatim>\<open>NFD_PickFolderN\<close> all read the first URI of the response and
  decode it.
\<close>

definition NFD_single_path ::
  "bus_env \<Rightarrow> err_ptr \<Rightarrow> fault + ((nfdresult_t \<times> (char list \<times> nat) option) \<times> err_ptr)" where
  "NFD_single_path env err =
     (case NFD_DBus_request env err of
        Inl e \<Rightarrow> Inl e
      | Inr ((NFD_OKAY, Some msg), err1) \<Rightarrow>
          (case ReadResponseUrisSingle msg err1 of
             ((NFD_OKAY, Some uri), err2) \<Rightarrow> AllocAndCopyFilePath uri err2
           | ((res, _), err2) \<Rightarrow> Inr ((res, None), err2))
      | Inr ((res, _), err1) \<Rightarrow> Inr ((res, None), err1))"

definition NFD_OpenDialogN where "NFD_OpenDialogN = NFD_single_path"
definition NFD_OpenDialogWin where "NFD_OpenDialogWin = NFD_single_path"
definition NFD_SaveDialogN where "NFD_SaveDialogN = NFD_single_path"
definition NFD_SaveDialogWin where "NFD_SaveDialogWin = NFD_single_path"
definition NFD_PickFolderN where "NFD_PickFolderN = NFD_single_path"

text \<open>\<^verbatim>\<open>NFD_OpenDialogMultipleN\<close> keeps the message as the path set.\<close>

definition NFD_OpenDialogMultipleN ::
  "bus_env \<Rightarrow> err_ptr \<Rightarrow> fault + ((nfdresult_t \<times> dbus_message option) \<times> err_ptr)" where
  "NFD_OpenDialogMultipleN env err =
     (case NFD_DBus_request env err of
        Inl e \<Rightarrow> Inl e
      | Inr ((NFD_OKAY, Some msg), err1) \<Rightarrow>
          (case ReadResponseUris msg err1 of
             ((NFD_OKAY, _), err2) \<Rightarrow> Inr ((NFD_OKAY, Some msg), err2)
           | ((res, _), err2) \<Rightarrow> Inr ((res, None), err2))
      | Inr ((res, _), err1) \<Rightarrow> Inr ((res, None), err1))"

text \<open>The loop \<^verbatim>\<open>for (nfdpathsetsize_t i = 1; i < numPaths; ++i)\<close> of
  \<^verbatim>\<open>NFD_OpenDialogMultipleWin\<close>; \<open>n\<close> is \<^verbatim>\<open>numPaths - i\<close>.\<close>

fun basename_loop ::
  "dbus_message \<Rightarrow> nat \<Rightarrow> nat \<Rightarrow> out_block \<Rightarrow> err_ptr
     \<Rightarrow> fault + ((nfdresult_t \<times> out_block) \<times> err_ptr)" where
  "basename_loop msg i 0 blk err = Inr ((NFD_OKAY, blk), err)"
| "basename_loop msg i (Suc n) blk err =
     (case NFD_PathSet_GetPathWin Basename msg i blk err of
        Inl e \<Rightarrow> Inl e
      | Inr ((NFD_OKAY, blk1), err1) \<Rightarrow> basename_loop msg (i + 1) n blk1 err1
      | Inr ((_, blk1), err1) \<Rightarrow> Inr ((NFD_ERROR, blk1), err1))"

text \<open>
  \<^verbatim>\<open>NFD_OpenDialogMultipleWin\<close> without an \<^verbatim>\<open>outAsyncOpHandle\<close>.  On \<^verbatim>\<open>NFD_OKAY\<close> the result
  carries the first \<^verbatim>\<open>outPathSize\<close> bytes of the block behind \<^verbatim>\<open>*params->outPath\<close> and
  \<^verbatim>\<open>params->outPathSize\<close>.
\<close>

definition pack_paths ::
  "dbus_message \<Rightarrow> err_ptr \<Rightarrow> fault + ((nfdresult_t \<times> (char list \<times> nat) option) \<times> err_ptr)" where
  "pack_paths msg err =
     (case NFD_PathSet_GetCount msg err of
        (numPaths, err1) \<Rightarrow>
          (case NFD_PathSet_GetPathWin (if numPaths = 1 then FullPath else Dirname) msg 0
                  ([], 256) err1 of
             Inl e \<Rightarrow> Inl e
           | Inr ((NFD_OKAY, blk1), err2) \<Rightarrow>
               (case basename_loop msg 1 (numPaths - 1) blk1 err2 of
                  Inl e \<Rightarrow> Inl e
                | Inr ((NFD_OKAY, blk2), err3) \<Rightarrow>
                    (case write_out
                            (if snd blk2 = length (fst blk2) then (fst blk2, snd blk2 + 1)
                             else blk2)
                            [NUL] of
                       Inl e \<Rightarrow> Inl e
                     | Inr blk3 \<Rightarrow> Inr ((NFD_OKAY, Some (fst blk3, length (fst blk3))), err3))
                | Inr (_, err3) \<Rightarrow> Inr ((NFD_ERROR, None), err3))
           | Inr (_, err2) \<Rightarrow> Inr ((NFD_ERROR, None), err2)))"

definition NFD_OpenDialogMultipleWin ::
  "bus_env \<Rightarrow> err_ptr \<Rightarrow> fault + ((nfdresult_t \<times> (char list \<times> nat) option) \<times> err_ptr)" where
  "NFD_OpenDialogMultipleWin env err =
     (case NFD_DBus_request env err of
        Inl e \<Rightarrow> Inl e
      | Inr ((NFD_OKAY, Some msg), err1) \<Rightarrow>
          (case ReadResponseUris msg err1 of
             ((NFD_OKAY, _), err2) \<Rightarrow> pack_paths msg err2
           | ((res, _), err2) \<Rightarrow> Inr ((res, None), err2))
      | Inr ((res, _), err1) \<Rightarrow> Inr ((res, None), err1))"

section \<open>Async monitor\<close>

text \<open>
  The fields of \<^verbatim>\<open>NfdDialogMonitor\<close> that the mutex guards.  A \<^verbatim>\<open>char*\<close> is \<open>None\<close> for the null
  pointer, or the block it points to.  \<^verbatim>\<open>getDialogResult\<close> holds the lock from its first
  statement to its return, so it is one step on the record.  \<^verbatim>\<open>NfdDialogResponse\<close> is the
  caller's: the variable \<^verbatim>\<open>*result->outPath\<close> and \<^verbatim>\<open>result->outPathSize\<close>.
\<close>

record NfdDialogMonitor =
  outPath :: "char list option"
  outPathSize :: nat
  resultCode :: nfdresult_t
  completed :: bool

record NfdDialogResponse =
  response_outPath :: "char list option"
  response_outPathSize :: nat

definition getDialogResult ::
  "NfdDialogMonitor \<Rightarrow> NfdDialogResponse \<Rightarrow> err_ptr
     \<Rightarrow> (nfdresult_t \<times> NfdDialogMonitor \<times> NfdDialogResponse) \<times> err_ptr" where
  "getDialogResult monitor result err =
     (if \<not> completed monitor then
        ((NFD_ERROR, monitor, result), NFDi_SetError ''response not ready'' err)
      else if resultCode monitor \<noteq> NFD_OKAY then ((resultCode monitor, monitor, result), err)
      else
        ((NFD_OKAY,
          monitor\<lparr>outPath := None\<rparr>,
          result\<lparr>response_outPath := outPath monitor,
                 response_outPathSize := outPathSize monitor\<rparr>),
         err))"

text \<open>\<^verbatim>\<open>NFD_GetAsyncOpResult\<close>: \<^verbatim>\<open>opHandle\<close> is \<open>None\<close> for the null pointer.\<close>

definition NFD_GetAsyncOpResult ::
  "NfdDialogMonitor option \<Rightarrow> NfdDialogResponse \<Rightarrow> err_ptr
     \<Rightarrow> (nfdresult_t \<times> NfdDialogMonitor option \<times> NfdDialogResponse) \<times> err_ptr" where
  "NFD_GetAsyncOpResult opHandle result err =
     (case opHandle of
        None \<Rightarrow> ((NFD_ERROR, None, result), NFDi_SetError ''opHandle null'' err)
      | Some monitor \<Rightarrow>
          (case getDialogResult monitor result err of
             ((res, monitor', result'), err') \<Rightarrow> ((res, Some monitor', result'), err')))"

section \<open>Notions of the specification\<close>

text \<open>The specification's words for what the encoder is compared with: the fields of a
  list with a separator, and the wrapping of one pattern byte.\<close>

fun sep_fields :: "char \<Rightarrow> string \<Rightarrow> string list" where
  "sep_fields sep [] = [[]]"
| "sep_fields sep (c # cs) =
     (if c = sep then [] # sep_fields sep cs
      else (c # hd (sep_fields sep cs)) # tl (sep_fields sep cs))"

definition spec_case_wrap :: "char \<Rightarrow> string" where
  "spec_case_wrap c = (if isalpha c then [CHR ''['', tolower c, toupper c, CHR '']''] else [c])"

text \<open>The bytes one outcome of \<^verbatim>\<open>getrandom\<close> brings.\<close>

fun delivered :: "getrandom_result \<Rightarrow> 8 word list" where
  "delivered (Delivered bs) = bs"
| "delivered Interrupted = []"
| "delivered Failed = []"








section \<open>Properties\<close>

subsection \<open>Case wrapping of Windows patterns\<close>

lemma pattern_scan_letters:
  "fst (pattern_scan cs) = length (filter isalpha (snd (pattern_scan cs)))"
  by (induction cs) (auto split: prod.splits)

lemma genCaseSensitivePattern_length:
  "length (genCaseSensitivePattern s) = length s + 3 * length (filter isalpha s)"
  by (induction s) auto

lemma genCaseSensitivePattern_concat:
  "genCaseSensitivePattern s = concat (map spec_case_wrap s)"
  by (induction s) (auto simp: spec_case_wrap_def)

lemma win_patterns_not_overrun: "win_patterns p \<noteq> Inl ScratchOverrun"
proof (induction p rule: win_patterns.induct)
  case 1
  then show ?case by simp
next
  case (2 c cs)
  obtain k g where kg: "pattern_scan cs = (k, g)" by (cases "pattern_scan cs")
  have k: "k = length (filter isalpha g)"
    using pattern_scan_letters [of cs] kg by simp
  show ?case
  proof (cases "drop (length g) cs")
    case Nil
    then show ?thesis using kg k by (simp add: genCaseSensitivePattern_length)
  next
    case (Cons d rest)
    have "win_patterns rest \<noteq> Inl ScratchOverrun"
      using "2.IH" [OF kg [symmetric] refl refl refl refl refl _ Cons] k
      by (simp add: genCaseSensitivePattern_length)
    then show ?thesis using kg k Cons
      by (auto simp: genCaseSensitivePattern_length split: sum.splits)
  qed
qed

text \<open>
  C10.  \<^verbatim>\<open>genCaseSensitivePattern\<close> writes one byte for every byte of its range and three
  more for every letter in it; the counter \<^verbatim>\<open>letter_count\<close> of \<^verbatim>\<open>AppendSingleFilter\<close> is the
  number of letters of the range; and the write of the pattern and its terminator into
  the scratch buffer of \<^verbatim>\<open>(pattern_end - pattern_begin) + 3 * letter_count + 1\<close> bytes never
  goes behind its end, whatever the name and the pattern are.
\<close>

theorem scratch_buffer_never_overrun:
  "length (genCaseSensitivePattern s) = length s + 3 * length (filter isalpha s)
   \<and> fst (pattern_scan s) = length (filter isalpha (snd (pattern_scan s)))
   \<and> win_patterns pattern \<noteq> Inl ScratchOverrun
   \<and> AppendSingleFilterWin nm pattern \<noteq> Inl ScratchOverrun"
  using win_patterns_not_overrun [of pattern] pattern_scan_letters [of s]
  by (auto simp: genCaseSensitivePattern_length AppendSingleFilterWin_def split: sum.splits)

subsection \<open>URI codec\<close>

lemma IsHex_not_percent: "IsHex c \<Longrightarrow> c \<noteq> CHR ''%''"
  by (auto simp: IsHex_def)

lemma strip_prefix_loop_append: "strip_prefix_loop p (p @ s) = Some s"
  by (induction p) auto

lemma uri_len_loop_plain:
  "CHR ''%'' \<notin> set s \<Longrightarrow> uri_len_loop len s = Some (len + length s)"
  by (induction s arbitrary: len) auto

lemma UriDecodeUnchecked_plain: "CHR ''%'' \<notin> set s \<Longrightarrow> UriDecodeUnchecked s = Inr s"
  by (induction s) auto

subsection \<open>Async monitor\<close>

text \<open>
  C9.  Through \<^verbatim>\<open>NFD_GetAsyncOpResult\<close> on a monitor: before \<^verbatim>\<open>completed\<close> the call returns
  \<^verbatim>\<open>NFD_ERROR\<close> and changes neither the monitor nor the caller's response (it records
  "response not ready" in the error slot); after completion with \<^verbatim>\<open>NFD_OKAY\<close> the first
  call hands the block and its size to the caller and leaves the monitor with a null
  \<^verbatim>\<open>outPath\<close>, and the call after it returns \<^verbatim>\<open>NFD_OKAY\<close> with a null path; after
  completion with another code the call returns that code and changes nothing.
\<close>

theorem async_retrieve:
  "(\<not> completed m \<longrightarrow>
      NFD_GetAsyncOpResult (Some m) r e = ((NFD_ERROR, Some m, r), Some ''response not ready''))
   \<and> (completed m \<and> resultCode m = NFD_OKAY \<longrightarrow>
        (\<exists>m' r'. NFD_GetAsyncOpResult (Some m) r e = ((NFD_OKAY, Some m', r'), e)
           \<and> response_outPath r' = outPath m \<and> response_outPathSize r' = outPathSize m
           \<and> m' = m\<lparr>outPath := None\<rparr>
           \<and> (\<exists>r''. NFD_GetAsyncOpResult (Some m') r' e = ((NFD_OKAY, Some m', r''), e)
                 \<and> response_outPath r'' = None)))
   \<and> (completed m \<and> resultCode m \<noteq> NFD_OKAY \<longrightarrow>
        NFD_GetAsyncOpResult (Some m) r e = ((resultCode m, Some m, r), e))"
  by (auto simp: NFD_GetAsyncOpResult_def getDialogResult_def NFDi_SetError_def)

theorem async_retrieve_witness:
  "completed \<lparr>outPath = Some (''/tmp/a'' @ [NUL]), outPathSize = 7,
               resultCode = NFD_OKAY, completed = True\<rparr>
   \<and> resultCode \<lparr>outPath = Some (''/tmp/a'' @ [NUL]), outPathSize = 7,
                  resultCode = NFD_OKAY, completed = True\<rparr> = NFD_OKAY
   \<and> (\<exists>r'. NFD_GetAsyncOpResult
               (Some \<lparr>outPath = Some (''/tmp/a'' @ [NUL]), outPathSize = 7,
                      resultCode = NFD_OKAY, completed = True\<rparr>)
               \<lparr>response_outPath = None, response_outPathSize = 0\<rparr> None
             = ((NFD_OKAY,
                 Some \<lparr>outPath = None, outPathSize = 7, resultCode = NFD_OKAY, completed = True\<rparr>,
                 r'), None)
           \<and> response_outPath r' = Some (''/tmp/a'' @ [NUL]))"
  using async_retrieve
    [of "\<lparr>outPath = Some (''/tmp/a'' @ [NUL]), outPathSize = 7,
          resultCode = NFD_OKAY, completed = True\<rparr>"
        "\<lparr>response_outPath = None, response_outPathSize = 0\<rparr>" None]
  by auto

subsection \<open>Decode rejection\<close>

lemma uri_len_loop_None:
  "(uri_len_loop len s = None) =
   (\<exists>i<length s. s ! i = CHR ''%'' \<and>
      \<not> (i + 2 < length s \<and> IsHex (s ! (i + 1)) \<and> IsHex (s ! (i + 2))))"
proof (induction len s rule: uri_len_loop.induct)
  case (1 len)
  then show ?case by simp
next
  case (2 len c cs)
  let ?bad = "\<lambda>s i. s ! i = CHR ''%'' \<and>
      \<not> (i + 2 < length s \<and> IsHex (s ! (i + 1)) \<and> IsHex (s ! (i + 2)))"
  show ?case
  proof (cases "c = CHR ''%''")
    case False
    have "(\<exists>i<length (c # cs). ?bad (c # cs) i) = (\<exists>i<length cs. ?bad cs i)" (is "?L = ?R")
    proof
      assume ?L
      then obtain i where i: "i < length (c # cs)" "?bad (c # cs) i" by blast
      with False obtain j where j: "i = Suc j" by (cases i) auto
      with i show ?R by (auto intro!: exI [of _ j])
    next
      assume ?R
      then obtain i where "i < length cs" "?bad cs i" by blast
      then show ?L by (auto intro!: exI [of _ "Suc i"])
    qed
    with False 2 show ?thesis by simp
  next
    case True
    show ?thesis
    proof (cases cs)
      case Nil
      with True show ?thesis by auto
    next
      case (Cons h1 cs1)
      show ?thesis
      proof (cases cs1)
        case Nil
        with True Cons show ?thesis by (auto intro!: exI [of _ 0])
      next
        case (Cons h2 rest)
        note cs = \<open>cs = h1 # cs1\<close> Cons
        show ?thesis
        proof (cases "IsHex h1 \<and> IsHex h2")
          case False
          with True cs show ?thesis by (auto intro!: exI [of _ 0])
        next
          case hex: True
          have "(\<exists>i<length (c # cs). ?bad (c # cs) i) = (\<exists>i<length rest. ?bad rest i)"
            (is "?L = ?R")
          proof
            assume ?L
            then obtain i where i: "i < length (c # cs)" "?bad (c # cs) i" by blast
            have "i \<noteq> 0"
            proof
              assume "i = 0"
              with i hex cs show False by simp
            qed
            moreover have "i \<noteq> 1" using i hex cs IsHex_not_percent by auto
            moreover have "i \<noteq> 2" using i hex cs IsHex_not_percent by auto
            ultimately have "3 \<le> i" by arith
            then obtain j where j: "i = j + 3"
              using le_Suc_ex [of 3 i] by (auto simp: add.commute)
            with i cs show ?R by (auto intro!: exI [of _ j])
          next
            assume ?R
            then obtain i where "i < length rest" "?bad rest i" by blast
            then show ?L using cs by (auto intro!: exI [of _ "i + 3"])
          qed
          with True cs hex 2 show ?thesis by simp
        qed
      qed
    qed
  qed
qed

text \<open>
  C8.  A string with a \<^verbatim>\<open>%\<close> that has fewer than two bytes behind it, or two bytes of which
  one is no hexadecimal digit, makes \<^verbatim>\<open>TryUriDecodeLen\<close> return false; and in every string
  it accepts, every \<^verbatim>\<open>%\<close> has two hexadecimal digits behind it.
\<close>

theorem TryUriDecodeLen_rejects_malformed:
  "((\<exists>i<length s. s ! i = CHR ''%'' \<and>
        (length s \<le> i + 2 \<or> \<not> IsHex (s ! (i + 1)) \<or> \<not> IsHex (s ! (i + 2))))
      \<longrightarrow> TryUriDecodeLen s = None)
   \<and> (TryUriDecodeLen s = Some n
      \<longrightarrow> (\<forall>i<length s. s ! i = CHR ''%''
             \<longrightarrow> i + 2 < length s \<and> IsHex (s ! (i + 1)) \<and> IsHex (s ! (i + 2))))"
proof (intro conjI impI)
  assume "\<exists>i<length s. s ! i = CHR ''%'' \<and>
      (length s \<le> i + 2 \<or> \<not> IsHex (s ! (i + 1)) \<or> \<not> IsHex (s ! (i + 2)))"
  then have "\<exists>i<length s. s ! i = CHR ''%'' \<and>
      \<not> (i + 2 < length s \<and> IsHex (s ! (i + 1)) \<and> IsHex (s ! (i + 2)))"
    by (metis not_le)
  then show "TryUriDecodeLen s = None"
    unfolding TryUriDecodeLen_def uri_len_loop_None [of 0 s] .
next
  assume "TryUriDecodeLen s = Some n"
  then have "uri_len_loop 0 s \<noteq> None" by (simp add: TryUriDecodeLen_def)
  then have "\<not> (\<exists>i<length s. s ! i = CHR ''%'' \<and>
      \<not> (i + 2 < length s \<and> IsHex (s ! (i + 1)) \<and> IsHex (s ! (i + 2))))"
    unfolding uri_len_loop_None [of 0 s] .
  then show "\<forall>i<length s. s ! i = CHR ''%''
      \<longrightarrow> i + 2 < length s \<and> IsHex (s ! (i + 1)) \<and> IsHex (s ! (i + 2))"
    by blast
qed

theorem TryUriDecodeLen_rejects_malformed_witness:
  "TryUriDecodeLen ''a%4'' = None
   \<and> TryUriDecodeLen ''a%4g'' = None
   \<and> TryUriDecodeLen ''a%4b'' = Some 2
   \<and> IsHex (CHR ''4'') \<and> IsHex (CHR ''b'')"
proof -
  have a: "\<exists>i<length ''a%4''. ''a%4'' ! i = CHR ''%'' \<and>
      (length ''a%4'' \<le> i + 2 \<or> \<not> IsHex (''a%4'' ! (i + 1)) \<or> \<not> IsHex (''a%4'' ! (i + 2)))"
    by (rule exI [of _ 1]) simp
  have r1: "TryUriDecodeLen ''a%4'' = None"
    using TryUriDecodeLen_rejects_malformed [of "''a%4''"] a by blast
  have b: "\<exists>i<length ''a%4g''. ''a%4g'' ! i = CHR ''%'' \<and>
      (length ''a%4g'' \<le> i + 2 \<or> \<not> IsHex (''a%4g'' ! (i + 1)) \<or> \<not> IsHex (''a%4g'' ! (i + 2)))"
    by (rule exI [of _ 1]) (simp add: IsHex_def)
  have r2: "TryUriDecodeLen ''a%4g'' = None"
    using TryUriDecodeLen_rejects_malformed [of "''a%4g''"] b by blast
  have c: "TryUriDecodeLen ''a%4b'' = Some 2"
    by (simp add: TryUriDecodeLen_def IsHex_def)
  have "\<forall>i<length ''a%4b''. ''a%4b'' ! i = CHR ''%''
      \<longrightarrow> i + 2 < length ''a%4b'' \<and> IsHex (''a%4b'' ! (i + 1)) \<and> IsHex (''a%4b'' ! (i + 2))"
    using TryUriDecodeLen_rejects_malformed [of "''a%4b''" 2] c by blast
  then have "1 < length ''a%4b'' \<longrightarrow> ''a%4b'' ! 1 = CHR ''%''
      \<longrightarrow> IsHex (''a%4b'' ! (1 + 1)) \<and> IsHex (''a%4b'' ! (1 + 2))"
    by blast
  then have d: "IsHex (CHR ''4'') \<and> IsHex (CHR ''b'')" by simp
  show ?thesis using r1 r2 c d by blast
qed

subsection \<open>URI round trip\<close>

text \<open>
  C3, as the code has it.  \<^verbatim>\<open>ConvertToUriPath\<close> escapes nothing, so the round trip through
  \<^verbatim>\<open>AllocAndCopyFilePath\<close> gives the string back when the string has no \<^verbatim>\<open>%\<close> in it (and no
  NUL): the call returns \<^verbatim>\<open>NFD_OKAY\<close>, the new block holds the string and its terminator,
  and the error slot is as before.
\<close>

theorem uri_round_trip_without_percent:
  assumes "NUL \<notin> set S" and "CHR ''%'' \<notin> set S"
  shows "AllocAndCopyFilePath (ConvertToUriPath S) err
           = Inr ((NFD_OKAY, Some (S @ [NUL], length S + 1)), err)"
  using assms(2) strip_prefix_loop_append [of "''file://''" S]
  by (simp add: AllocAndCopyFilePath_def ConvertToUriPath_def FILE_URI_PREFIX_def
      TryUriDecodeLen_def uri_len_loop_plain UriDecodeUnchecked_plain)

theorem uri_round_trip_without_percent_witness:
  "NUL \<notin> set ''/tmp/a b.txt'' \<and> CHR ''%'' \<notin> set ''/tmp/a b.txt''
   \<and> AllocAndCopyFilePath (ConvertToUriPath ''/tmp/a b.txt'') None
       = Inr ((NFD_OKAY, Some (''/tmp/a b.txt'' @ [NUL], 13)), None)"
proof -
  have a: "NUL \<notin> set ''/tmp/a b.txt''" by (simp add: NUL_def)
  have b: "CHR ''%'' \<notin> set ''/tmp/a b.txt''" by simp
  show ?thesis using uri_round_trip_without_percent [OF a b, of None] a b by simp
qed

text \<open>
  The claim as stated fails on a string with a \<^verbatim>\<open>%\<close>: \<^verbatim>\<open>/a%41\<close> has no NUL and comes back
  as \<^verbatim>\<open>/aA\<close>, and \<^verbatim>\<open>/100%\<close> has no NUL and is refused as a malformed URI.
\<close>

theorem uri_round_trip_counterexample:
  "NUL \<notin> set ''/a%41''
   \<and> AllocAndCopyFilePath (ConvertToUriPath ''/a%41'') None
       = Inr ((NFD_OKAY, Some (''/aA'' @ [NUL], 4)), None)
   \<and> ''/aA'' \<noteq> ''/a%41''
   \<and> NUL \<notin> set ''/100%''
   \<and> AllocAndCopyFilePath (ConvertToUriPath ''/100%'') None
       = Inr ((NFD_ERROR, None),
              Some ''D-Bus freedesktop portal returned a malformed URI.'')"
  by code_simp

subsection \<open>Request handle\<close>

lemma random_chars_loop_ok:
  "Failed \<notin> set rs \<Longrightarrow> amount \<le> length (concat (map delivered rs)) \<Longrightarrow>
   random_chars_loop amount rs
     = Inr (concat (map encode_random_byte (take amount (concat (map delivered rs)))))"
proof (induction rs arbitrary: amount)
  case Nil
  then show ?case by simp
next
  case (Cons r rs)
  show ?case
  proof (cases r)
    case Interrupted
    with Cons show ?thesis by simp
  next
    case Failed
    with Cons show ?thesis by simp
  next
    case (Delivered bs)
    have "amount - length (take amount bs) \<le> length (concat (map delivered rs))"
      using Cons.prems(2) Delivered by auto
    then have "random_chars_loop (amount - length (take amount bs)) rs =
        Inr (concat (map encode_random_byte
               (take (amount - length (take amount bs)) (concat (map delivered rs)))))"
      using Cons.IH Cons.prems(1) by simp
    then show ?thesis using Delivered by (auto simp: min_def)
  qed
qed

lemma low_nibble: "unat ((b :: 8 word) AND 15) < 16"
proof -
  have "b AND 15 = take_bit 4 b" by (simp add: take_bit_eq_mask mask_eq_exp_minus_1)
  then have "unat (b AND 15) = unat b mod 16" by (simp add: take_bit_eq_mod unat_mod)
  then show ?thesis by simp
qed

lemma high_nibble: "unat (drop_bit 4 (b :: 8 word)) < 16"
proof -
  have "unat b < 256" using unsigned_less [of b, where 'a = nat] by simp
  moreover have "unat (drop_bit 4 b) = unat b div 16" by (simp add: drop_bit_eq_div unat_div)
  ultimately show ?thesis by simp
qed

lemma encode_random_byte_range:
  "c \<in> set (encode_random_byte b) \<Longrightarrow> 65 \<le> (of_char c :: nat) \<and> (of_char c :: nat) \<le> 80"
  using low_nibble [of b] high_nibble [of b]
  by (auto simp: encode_random_byte_def)

lemma length_concat_encode: "length (concat (map encode_random_byte bs)) = 2 * length bs"
  by (induction bs) (auto simp: encode_random_byte_def)

text \<open>
  C5, as the code has it.  \<^verbatim>\<open>Generate64RandomChars\<close> stops at the first failure of
  \<^verbatim>\<open>getrandom\<close> that is no interruption ("appends up to 64 random chars"), so the token
  has 64 characters when no call fails that way: then, for outcomes that bring 32 bytes
  or more, the path is the prefix, the unique name without a leading colon and with an
  underscore for every dot, a slash, and the token; the token has 64 characters, each
  from \<^verbatim>\<open>A\<close> to \<^verbatim>\<open>P\<close>, two for every one of the first 32 bytes, the low nibble first.
\<close>

theorem request_handle_path:
  assumes "Failed \<notin> set rs" and "32 \<le> length (concat (map delivered rs))"
  shows "\<exists>token.
           MakeUniqueObjectPath unique_name rs
             = Inr (''/org/freedesktop/portal/desktop/request/''
                      @ map (\<lambda>ch. if ch = CHR ''.'' then CHR ''_'' else ch)
                          (if unique_name \<noteq> [] \<and> hd unique_name = CHR '':''
                           then tl unique_name else unique_name)
                      @ ''/'' @ token,
                    token)
           \<and> length token = 64
           \<and> (\<forall>c\<in>set token. 65 \<le> (of_char c :: nat) \<and> (of_char c :: nat) \<le> 80)
           \<and> token = concat (map (\<lambda>b. [char_of (65 + unat b mod 16), char_of (65 + unat b div 16)])
                        (take 32 (concat (map delivered rs))))"
proof -
  let ?bytes = "take 32 (concat (map delivered rs))"
  let ?token = "concat (map encode_random_byte ?bytes)"
  have gen: "Generate64RandomChars rs = Inr ?token"
    using assms by (simp add: Generate64RandomChars_def random_chars_loop_ok)
  have sender: "(case unique_name of [] \<Rightarrow> [] | c # cs \<Rightarrow> if c = CHR '':'' then cs else c # cs)
      = (if unique_name \<noteq> [] \<and> hd unique_name = CHR '':'' then tl unique_name else unique_name)"
    by (cases unique_name) auto
  have len: "length ?token = 64"
    using assms(2) by (simp add: length_concat_encode)
  have range: "\<forall>c\<in>set ?token. 65 \<le> (of_char c :: nat) \<and> (of_char c :: nat) \<le> 80"
    using encode_random_byte_range by auto
  have enc: "encode_random_byte = (\<lambda>b. [char_of (65 + unat b mod 16), char_of (65 + unat b div 16)])"
  proof
    fix b :: "8 word"
    have "b AND 15 = take_bit 4 b" by (simp add: take_bit_eq_mask mask_eq_exp_minus_1)
    then have 1: "unat (b AND 15) = unat b mod 16" by (simp add: take_bit_eq_mod unat_mod)
    have 2: "unat (drop_bit 4 b) = unat b div 16" by (simp add: drop_bit_eq_div unat_div)
    show "encode_random_byte b = [char_of (65 + unat b mod 16), char_of (65 + unat b div 16)]"
      by (simp add: encode_random_byte_def 1 2)
  qed
  have path: "MakeUniqueObjectPath unique_name rs
             = Inr (''/org/freedesktop/portal/desktop/request/''
                      @ map (\<lambda>ch. if ch = CHR ''.'' then CHR ''_'' else ch)
                          (if unique_name \<noteq> [] \<and> hd unique_name = CHR '':''
                           then tl unique_name else unique_name)
                      @ ''/'' @ ?token,
                    ?token)"
    unfolding MakeUniqueObjectPath_def gen sender STR_RESPONSE_HANDLE_PREFIX_def
    by (simp add: Let_def cong: if_cong)
  show ?thesis
    using path len range enc by metis
qed

theorem request_handle_path_witness:
  "Failed \<notin> set [Interrupted, Delivered (replicate 32 0x3F)]
   \<and> 32 \<le> length (concat (map delivered [Interrupted, Delivered (replicate 32 0x3F)]))
   \<and> (\<exists>token. MakeUniqueObjectPath '':1.42'' [Interrupted, Delivered (replicate 32 0x3F)]
         = Inr (''/org/freedesktop/portal/desktop/request/1_42/'' @ token, token)
         \<and> length token = 64)"
proof -
  have a: "Failed \<notin> set [Interrupted, Delivered (replicate 32 0x3F)]" by simp
  have b: "32 \<le> length (concat (map delivered [Interrupted, Delivered (replicate 32 0x3F)]))"
    by simp
  show ?thesis
    using request_handle_path [OF a b, of "'':1.42''"] a b by auto
qed

text \<open>The claim as stated fails when \<^verbatim>\<open>getrandom\<close> fails: the token is empty after a
  failure of the first call, and has two characters after a failure of the second.\<close>

theorem request_handle_path_counterexample:
  "MakeUniqueObjectPath '':1.42'' [Failed]
     = Inr (''/org/freedesktop/portal/desktop/request/1_42/'', [])
   \<and> MakeUniqueObjectPath '':1.42'' [Delivered [0x3F], Failed]
     = Inr (''/org/freedesktop/portal/desktop/request/1_42/PD'', ''PD'')
   \<and> length ''PD'' \<noteq> 64"
  by code_simp

subsection \<open>Fields of a separated list\<close>

lemma fields_not_Nil: "sep_fields sep s \<noteq> []"
  by (induction s) auto

lemma fields_unfold:
  "sep_fields sep s =
     takeWhile (\<lambda>c. c \<noteq> sep) s #
       (case dropWhile (\<lambda>c. c \<noteq> sep) s of [] \<Rightarrow> [] | _ # r \<Rightarrow> sep_fields sep r)"
proof (induction s)
  case Nil
  then show ?case by simp
next
  case (Cons c cs)
  show ?case
  proof (cases "c = sep")
    case True
    then show ?thesis by simp
  next
    case False
    then show ?thesis by (simp add: Cons.IH [symmetric]) (simp add: Cons.IH)
  qed
qed

lemma pattern_scan_takeWhile:
  "pattern_scan cs = (length (filter isalpha (takeWhile (\<lambda>c. c \<noteq> CHR '';'') cs)),
                      takeWhile (\<lambda>c. c \<noteq> CHR '';'') cs)"
  by (induction cs) auto


lemma drop_takeWhile: "drop (length (takeWhile P xs)) xs = dropWhile P xs"
  by (simp add: dropWhile_eq_drop)


lemma win_patterns_step:
  "win_patterns (c # cs) =
     (case dropWhile (\<lambda>c. c \<noteq> CHR '';'') cs of
        [] \<Rightarrow> Inr [(0, genCaseSensitivePattern (c # takeWhile (\<lambda>c. c \<noteq> CHR '';'') cs))]
      | _ # rest \<Rightarrow>
          (case win_patterns rest of
             Inl e \<Rightarrow> Inl e
           | Inr ps \<Rightarrow>
               Inr ((0, genCaseSensitivePattern (c # takeWhile (\<lambda>c. c \<noteq> CHR '';'') cs)) # ps)))"
  by (simp add: pattern_scan_takeWhile drop_takeWhile genCaseSensitivePattern_length Let_def)

lemma win_patterns_fields:
  "[] \<notin> set (sep_fields (CHR '';'') p) \<Longrightarrow>
   win_patterns p = Inr (map (\<lambda>g. (0, concat (map spec_case_wrap g))) (sep_fields (CHR '';'') p))"
proof (induction p rule: length_induct)
  case (1 p)
  show ?case
  proof (cases p)
    case Nil
    with 1 show ?thesis by simp
  next
    case (Cons c cs)
    let ?g = "takeWhile (\<lambda>c. c \<noteq> CHR '';'') cs"
    have c: "c \<noteq> CHR '';''" using "1.prems" Cons by auto
    have f: "sep_fields (CHR '';'') (c # cs) = (c # ?g) #
         (case dropWhile (\<lambda>c. c \<noteq> CHR '';'') cs of [] \<Rightarrow> [] | _ # r \<Rightarrow> sep_fields (CHR '';'') r)"
      using fields_unfold [of "CHR '';''" "c # cs"] c by simp
    show ?thesis
    proof (cases "dropWhile (\<lambda>c. c \<noteq> CHR '';'') cs")
      case Nil
      show ?thesis
        unfolding Cons win_patterns_step f Nil
        by (simp add: genCaseSensitivePattern_concat del: genCaseSensitivePattern.simps)
    next
      case d: (Cons d rest)
      have rest: "[] \<notin> set (sep_fields (CHR '';'') rest)" using "1.prems" Cons f d by simp
      have "length (dropWhile (\<lambda>c. c \<noteq> CHR '';'') cs) \<le> length cs"
        by (rule length_dropWhile_le)
      then have "length rest < length p" using d Cons by simp
      then have ih: "win_patterns rest
          = Inr (map (\<lambda>g. (0, concat (map spec_case_wrap g))) (sep_fields (CHR '';'') rest))"
        using "1.IH" rest by blast
      show ?thesis
        unfolding Cons win_patterns_step f d
        by (simp add: ih genCaseSensitivePattern_concat del: genCaseSensitivePattern.simps)
    qed
  qed
qed

text \<open>
  C7.  What \<^verbatim>\<open>genCaseSensitivePattern\<close> writes for a range is the range with every letter
  \<open>c\<close> replaced by the four bytes \<^verbatim>\<open>[\<close>, \<open>tolower c\<close>, \<open>toupper c\<close>, \<^verbatim>\<open>]\<close> and every other
  byte unchanged; and for a Windows pattern string whose globs (its fields between
  semicolons) are not empty, \<^verbatim>\<open>AppendSingleFilter\<close> emits one pattern of kind 0 for every
  glob, which is the glob wrapped in this way.
\<close>

theorem windows_pattern_case_wrap:
  assumes "[] \<notin> set (sep_fields (CHR '';'') pattern)"
  shows "genCaseSensitivePattern g
           = concat (map (\<lambda>c. if isalpha c
                                then [CHR ''['', tolower c, toupper c, CHR '']'']
                                else [c]) g)
         \<and> AppendSingleFilterWin nm pattern
           = Inr (nm, map (\<lambda>g. (0, concat (map (\<lambda>c. if isalpha c
                                                       then [CHR ''['', tolower c, toupper c, CHR '']'']
                                                       else [c]) g)))
                        (sep_fields (CHR '';'') pattern))"
proof -
  have w: "spec_case_wrap = (\<lambda>c. if isalpha c then [CHR ''['', tolower c, toupper c, CHR '']''] else [c])"
    by (rule ext) (simp add: spec_case_wrap_def)
  show ?thesis
    using win_patterns_fields [OF assms] genCaseSensitivePattern_concat [of g]
    by (simp add: AppendSingleFilterWin_def w)
qed

theorem windows_pattern_case_wrap_witness:
  "[] \<notin> set (sep_fields (CHR '';'') ''*.TXT'')
   \<and> AppendSingleFilterWin ''Text'' ''*.TXT'' = Inr (''Text'', [(0, ''*.[tT][xX][tT]'')])"
proof -
  have a: "[] \<notin> set (sep_fields (CHR '';'') ''*.TXT'')" by simp
  have r: "AppendSingleFilterWin ''Text'' ''*.TXT''
           = Inr (''Text'', map (\<lambda>g. (0, concat (map (\<lambda>c. if isalpha c
                                                       then [CHR ''['', tolower c, toupper c, CHR '']'']
                                                       else [c]) g)))
                        (sep_fields (CHR '';'') ''*.TXT''))"
    using windows_pattern_case_wrap [OF a, of _ "''Text''"] by (rule conjunct2)
  have e: "map (\<lambda>g. (0 :: nat, concat (map (\<lambda>c. if isalpha c
                                                       then [CHR ''['', tolower c, toupper c, CHR '']'']
                                                       else [c]) g)))
                        (sep_fields (CHR '';'') ''*.TXT'') = [(0, ''*.[tT][xX][tT]'')]"
    by code_simp
  from r have "AppendSingleFilterWin ''Text'' ''*.TXT'' = Inr (''Text'', [(0, ''*.[tT][xX][tT]'')])"
    by (simp only: e)
  with a show ?thesis by blast
qed

subsection \<open>Native filter list of the save dialog\<close>

















subsection \<open>Windows filter list\<close>













subsection \<open>Cancel and the error slot\<close>

lemma ReadResponseResults_cancel:
  "msg_args msg = DUInt32 1 # rest \<Longrightarrow> ReadResponseResults msg err = ((NFD_CANCEL, None), err)"
  by (simp add: ReadResponseResults_def)

lemma ReadResponseUris_cancel:
  "msg_args msg = DUInt32 1 # rest \<Longrightarrow> ReadResponseUris msg err = ((NFD_CANCEL, None), err)"
  by (simp add: ReadResponseUris_def ReadResponseResults_cancel)

lemma ReadResponseUrisSingle_cancel:
  "msg_args msg = DUInt32 1 # rest \<Longrightarrow> ReadResponseUrisSingle msg err = ((NFD_CANCEL, None), err)"
  by (simp add: ReadResponseUrisSingle_def ReadResponseUris_cancel)

lemma wait_for_response_err:
  "wait_for_response closes msgs err = Inr ((NFD_OKAY, m), err1) \<Longrightarrow> err1 = err"
  by (induction msgs) (auto simp: NFDi_SetError_def split: if_splits)

lemma NFD_DBus_request_err:
  assumes "\<forall>rule. env_add_match env rule = None"
    and "NFD_DBus_request env err = Inr ((NFD_OKAY, m), err1)"
  shows "err1 = err"
proof -
  have sub: "Subscribe env p e = (NFD_OKAY, e)" for p e
    using assms(1) by (simp add: Subscribe_def)
  show ?thesis
    using assms(2) wait_for_response_err
    unfolding NFD_DBus_request_def sub
    by (auto split: sum.splits prod.splits list.splits dbus_value.splits if_splits)
qed

text \<open>
  The part of C6 that holds.  In every call of the seven dialog functions in which the
  bus accepts every match rule and the response signal carries the response code 1, the
  call returns \<^verbatim>\<open>NFD_CANCEL\<close> and \<^verbatim>\<open>NFD_GetError\<close> returns afterwards what it returned before.
\<close>

lemma cancel_keeps_error_slot:
  assumes "\<forall>rule. env_add_match env rule = None"
    and "NFD_DBus_request env err = Inr ((NFD_OKAY, Some msg), err1)"
    and "msg_args msg = DUInt32 1 # rest"
  shows "NFD_OpenDialogN env err = Inr ((NFD_CANCEL, None), err)"
    and "NFD_OpenDialogWin env err = Inr ((NFD_CANCEL, None), err)"
    and "NFD_SaveDialogN env err = Inr ((NFD_CANCEL, None), err)"
    and "NFD_SaveDialogWin env err = Inr ((NFD_CANCEL, None), err)"
    and "NFD_PickFolderN env err = Inr ((NFD_CANCEL, None), err)"
    and "NFD_OpenDialogMultipleN env err = Inr ((NFD_CANCEL, None), err)"
    and "NFD_OpenDialogMultipleWin env err = Inr ((NFD_CANCEL, None), err)"
proof -
  have e: "err1 = err" using assms(1,2) by (rule NFD_DBus_request_err)
  show "NFD_OpenDialogN env err = Inr ((NFD_CANCEL, None), err)"
    and "NFD_OpenDialogWin env err = Inr ((NFD_CANCEL, None), err)"
    and "NFD_SaveDialogN env err = Inr ((NFD_CANCEL, None), err)"
    and "NFD_SaveDialogWin env err = Inr ((NFD_CANCEL, None), err)"
    and "NFD_PickFolderN env err = Inr ((NFD_CANCEL, None), err)"
    using assms(2,3) e
    by (simp_all add: NFD_OpenDialogN_def NFD_OpenDialogWin_def NFD_SaveDialogN_def
        NFD_SaveDialogWin_def NFD_PickFolderN_def NFD_single_path_def
        ReadResponseUrisSingle_cancel [of msg rest])
  show "NFD_OpenDialogMultipleN env err = Inr ((NFD_CANCEL, None), err)"
    using assms(2,3) e
    by (simp add: NFD_OpenDialogMultipleN_def ReadResponseUris_cancel [of msg rest])
  show "NFD_OpenDialogMultipleWin env err = Inr ((NFD_CANCEL, None), err)"
    using assms(2,3) e
    by (simp add: NFD_OpenDialogMultipleWin_def ReadResponseUris_cancel [of msg rest])
qed

text \<open>
  C6 on the code.  The portal answers with an object path that is not the generated
  handle, the bus refuses the match rule for that path, and the response signal, which
  the portal sends to the caller's unique name, arrives with the response code 1: the
  call returns \<^verbatim>\<open>NFD_CANCEL\<close>, and the error slot, which was null before the call, holds the
  message of the refused \<^verbatim>\<open>dbus_bus_add_match\<close>, because the result of the second
  \<^verbatim>\<open>signal_sub.Subscribe(path)\<close> is dropped where the first one is tested.
\<close>

theorem cancel_after_refused_rebind:
  "NFD_OpenDialogWin
     \<lparr>env_unique_name = '':1.42'',
      env_getrandom = [Delivered (replicate 32 0)],
      env_add_match =
        (\<lambda>rule. if rule = MakeResponseSubscriptionPath
                             ''/org/freedesktop/portal/desktop/request/1_42/t'' '':1.42''
                 then Some ''org.freedesktop.DBus.Error.NoMemory'' else None),
      env_reply = Inr [DObjectPath ''/org/freedesktop/portal/desktop/request/1_42/t''],
      env_incoming =
        [\<lparr>msg_is_signal = True, msg_interface = ''org.freedesktop.portal.Request'',
          msg_member = ''Response'', msg_args = [DUInt32 1, DArray []]\<rparr>],
      env_closes = False\<rparr>
     None
   = Inr ((NFD_CANCEL, None), Some ''org.freedesktop.DBus.Error.NoMemory'')"
  by code_simp

subsection \<open>Packing several paths\<close>









declare expand_loop.simps [simp del]






lemma write_out_ok:
  "length (fst blk) + length bs \<le> snd blk \<Longrightarrow> write_out blk bs = Inr (fst blk @ bs, snd blk)"
  by (simp add: write_out_def)














text \<open>
  Why the first path has to fit: for \<open>Dirname\<close> the block is grown for the directory part
  only, and the copy then writes the whole path.  A first path of 263 bytes in a short
  directory runs over the 256 bytes of the fresh block.
\<close>

lemma first_path_overrun:
  "copyFileInfo Dirname (''file:///d/'' @ replicate 260 (CHR ''a'')) ([], 256) None
     = Inl HeapOverrun"
  by code_simp




end
